theory Spec2Isabelle
  imports Main "HOL-Library.Word" "HOL-Library.Sublist"
begin

section \<open>Data model (journal/model.go, auth/model.go)\<close>

text \<open>
  Go's \<open>int\<close> is 64 bits wide on the platforms the service is built for (linux/amd64 and
  linux/arm64), so a version number is a 64-bit word and \<open>+ 1\<close> wraps. A \<open>time.Time\<close> is
  an instant, modelled as a natural number. Strings are byte strings.
\<close>

type_synonym time = nat

record Entry =
  EVersion :: "64 word"
  Title :: string
  Content :: string
  Attachments :: "string list"
  EUpdatedAt :: time

record Taxonomy =
  Categories :: "string list"
  Subcategories :: "string list"
  Topics :: "string list"
  Tags :: "string list"

record JournalEntry =
  JournalID :: string
  UserID :: string
  Version :: "64 word"
  Entries :: "Entry list"
  Status :: string
  Taxonomy :: Taxonomy
  Summary :: string
  CreatedAt :: time
  UpdatedAt :: time

record User =
  ID :: string
  Name :: string
  Email :: string
  Password :: string

section \<open>The request context (gin.Context)\<close>

text \<open>
  The values the handlers keep under the context's keys are strings and \<open>auth.User\<close>
  structs; \<open>NilV\<close> is the nil interface value. \<open>Body\<close> is the raw request body: what
  \<open>ShouldBindJSON\<close> makes of it for the handler's target type is a parameter
  \<open>bindJSON\<close> of each handler that reads the body (\<open>Inl\<close> the binding error's text).
\<close>

datatype val = NilV | Str string | UserV User

record Context =
  Keys :: "string \<rightharpoonup> val"
  Params :: "string \<rightharpoonup> string"
  Queries :: "string \<rightharpoonup> string"
  Cookies :: "string \<rightharpoonup> string"
  Host :: string
  Body :: string

definition Param :: "Context \<Rightarrow> string \<Rightarrow> string" where
  "Param c k = (case Params c k of None \<Rightarrow> [] | Some v \<Rightarrow> v)"

definition Query :: "Context \<Rightarrow> string \<Rightarrow> string" where
  "Query c k = (case Queries c k of None \<Rightarrow> [] | Some v \<Rightarrow> v)"

definition Set :: "Context \<Rightarrow> string \<Rightarrow> val \<Rightarrow> Context" where
  "Set c k v = c\<lparr>Keys := (Keys c)(k \<mapsto> v)\<rparr>"

datatype panic = KeyDoesNotExist string | InterfaceConversion

text \<open>\<open>c.MustGet(key)\<close> panics when the key was never set.\<close>

definition MustGet :: "Context \<Rightarrow> string \<Rightarrow> panic + val" where
  "MustGet c k = (case Keys c k of None \<Rightarrow> Inl (KeyDoesNotExist k) | Some v \<Rightarrow> Inr v)"

text \<open>The type assertions \<open>v.(string)\<close> (one result: panics) and \<open>v.(auth.User)\<close> (two results).\<close>

definition assertString :: "val \<Rightarrow> panic + string" where
  "assertString v = (case v of Str s \<Rightarrow> Inr s | _ \<Rightarrow> Inl InterfaceConversion)"

definition assertUser :: "val \<Rightarrow> User option" where
  "assertUser v = (case v of UserV u \<Rightarrow> Some u | _ \<Rightarrow> None)"

section \<open>Responses\<close>

text \<open>
  A \<open>gin.H\<close> is a JSON object given by its keys; the other bodies are the structs and
  slices the handlers marshal. A handler either writes a response or panics.
\<close>

datatype field =
    TimeF time
  | IntF "64 word"
  | StringF string
  | EntriesF "Entry list"
  | TaxonomyF Taxonomy

datatype body =
    H "(string \<times> field) list"
  | JournalB JournalEntry
  | JournalsB "JournalEntry list"
  | NoBody

datatype outcome = JSON nat body | Panicked panic

definition error_body :: "string \<Rightarrow> body" where
  "error_body msg = H [(''error'', StringF msg)]"

definition message_body :: "string \<Rightarrow> body" where
  "message_body msg = H [(''message'', StringF msg)]"

section \<open>The document store (one MongoDB collection)\<close>

text \<open>
  A collection is the list of its documents in natural order. A filter document
  (\<open>bson.M\<close>) is the list of its conditions, all of which must hold. Every round trip to
  the store can fail; whether it does is an input of the operation. \<open>FindOne\<close> followed by
  \<open>Decode\<close> yields an error both when no document matches and when the round trip fails.
\<close>

type_synonym 'd filter = "('d \<Rightarrow> bool) list"

definition matches :: "'d filter \<Rightarrow> 'd \<Rightarrow> bool" where
  "matches flt d = list_all (\<lambda>p. p d) flt"

definition FindOne :: "bool \<Rightarrow> 'd filter \<Rightarrow> 'd list \<Rightarrow> 'd option" where
  "FindOne err flt docs = (if err then None else find (matches flt) docs)"

definition Find :: "bool \<Rightarrow> 'd filter \<Rightarrow> 'd list \<Rightarrow> 'd list option" where
  "Find err flt docs = (if err then None else Some (filter (matches flt) docs))"

definition InsertOne :: "bool \<Rightarrow> 'd \<Rightarrow> 'd list \<Rightarrow> 'd list option" where
  "InsertOne err d docs = (if err then None else Some (docs @ [d]))"

fun update_first :: "('d \<Rightarrow> bool) \<Rightarrow> ('d \<Rightarrow> 'd) \<Rightarrow> 'd list \<Rightarrow> 'd list" where
  "update_first p f [] = []"
| "update_first p f (d # ds) = (if p d then f d # ds else d # update_first p f ds)"

fun delete_first :: "('d \<Rightarrow> bool) \<Rightarrow> 'd list \<Rightarrow> 'd list" where
  "delete_first p [] = []"
| "delete_first p (d # ds) = (if p d then ds else d # delete_first p ds)"

text \<open>\<open>UpdateOne\<close> without upsert and \<open>DeleteOne\<close>: no matching document is not an error.\<close>

definition UpdateOne :: "bool \<Rightarrow> 'd filter \<Rightarrow> ('d \<Rightarrow> 'd) \<Rightarrow> 'd list \<Rightarrow> 'd list option" where
  "UpdateOne err flt upd docs = (if err then None else Some (update_first (matches flt) upd docs))"

definition DeleteOne :: "bool \<Rightarrow> 'd filter \<Rightarrow> 'd list \<Rightarrow> 'd list option" where
  "DeleteOne err flt docs = (if err then None else Some (delete_first (matches flt) docs))"

text \<open>The conditions the journal handlers put into their filters.\<close>

definition journal_id_is :: "string \<Rightarrow> JournalEntry \<Rightarrow> bool" where
  "journal_id_is v j = (JournalID j = v)"

definition user_id_is :: "string \<Rightarrow> JournalEntry \<Rightarrow> bool" where
  "user_id_is v j = (UserID j = v)"

definition status_is :: "string \<Rightarrow> JournalEntry \<Rightarrow> bool" where
  "status_is v j = (Status j = v)"

text \<open>Equality against an array field holds when the array has the value as an element.\<close>

definition categories_has :: "string \<Rightarrow> JournalEntry \<Rightarrow> bool" where
  "categories_has v j = (v \<in> set (Categories (Taxonomy j)))"

definition subcategories_has :: "string \<Rightarrow> JournalEntry \<Rightarrow> bool" where
  "subcategories_has v j = (v \<in> set (Subcategories (Taxonomy j)))"

definition topics_has :: "string \<Rightarrow> JournalEntry \<Rightarrow> bool" where
  "topics_has v j = (v \<in> set (Topics (Taxonomy j)))"

definition tags_has :: "string \<Rightarrow> JournalEntry \<Rightarrow> bool" where
  "tags_has v j = (v \<in> set (Tags (Taxonomy j)))"

section \<open>What a request reads from its surroundings\<close>

text \<open>
  The readings of \<open>time.Now()\<close> in the order the handler takes them, the identifier
  \<open>utils.GenerateID()\<close> returns, and whether the handler's read of the collection, the
  decoding of a cursor's documents (\<open>cursor.All\<close>) and the handler's write fail.
\<close>

record Env =
  Now1 :: time
  Now2 :: time
  NewID :: string
  FindErr :: bool
  CursorErr :: bool
  WriteErr :: bool

section \<open>The journal handlers (journal/journal.go)\<close>

text \<open>The filter \<open>{journal_id: journalID, user_id: userID}\<close> of the owner's operations.\<close>

definition owned :: "string \<Rightarrow> string \<Rightarrow> JournalEntry filter" where
  "owned journalID userID = [journal_id_is journalID, user_id_is userID]"

definition CreateJournalEntry ::
  "(string \<Rightarrow> string + Entry) \<Rightarrow> Env \<Rightarrow> Context \<Rightarrow> JournalEntry list \<Rightarrow> outcome \<times> JournalEntry list"
where
  "CreateJournalEntry bindJSON env c docs =
    (case Keys c ''user'' of
       None \<Rightarrow> (JSON 401 (error_body ''User not authenticated''), docs)
     | Some user \<Rightarrow>
    (case assertUser user of
       None \<Rightarrow> (JSON 500 (error_body ''Failed to parse user information''), docs)
     | Some userStruct \<Rightarrow>
    (case bindJSON (Body c) of
       Inl err \<Rightarrow> (JSON 400 (error_body err), docs)
     | Inr newEntry \<Rightarrow>
    (let journalEntry = \<lparr>JournalID = NewID env, UserID = ID userStruct, Version = 1,
           Entries = [newEntry], Status = ''pending'',
           Taxonomy = \<lparr>Categories = [], Subcategories = [], Topics = [], Tags = []\<rparr>,
           Summary = [], CreatedAt = Now1 env, UpdatedAt = Now2 env\<rparr>
     in case InsertOne (WriteErr env) journalEntry docs of
          None \<Rightarrow> (JSON 500 (error_body ''Error creating journal entry''), docs)
        | Some docs' \<Rightarrow> (JSON 201 (JournalB journalEntry), docs')))))"

definition UpdateJournalEntry ::
  "(string \<Rightarrow> string + Entry) \<Rightarrow> Env \<Rightarrow> Context \<Rightarrow> JournalEntry list \<Rightarrow> outcome \<times> JournalEntry list"
where
  "UpdateJournalEntry bindJSON env c docs =
    (let journalID = Param c ''journalid'' in
     case MustGet c ''userID'' of Inl p \<Rightarrow> (Panicked p, docs) | Inr v \<Rightarrow>
    (case assertString v of Inl p \<Rightarrow> (Panicked p, docs) | Inr userID \<Rightarrow>
    (case bindJSON (Body c) of
       Inl err \<Rightarrow> (JSON 400 (error_body err), docs)
     | Inr updatedEntry \<Rightarrow>
    (case FindOne (FindErr env) (owned journalID userID) docs of
       None \<Rightarrow> (JSON 404 (error_body ''Journal entry not found''), docs)
     | Some journal \<Rightarrow>
    (let updatedEntry = updatedEntry\<lparr>EVersion := Version journal + 1\<rparr>;
         updatedEntry = updatedEntry\<lparr>EUpdatedAt := Now1 env\<rparr>;
         journal = journal\<lparr>Entries := Entries journal @ [updatedEntry]\<rparr>;
         journal = journal\<lparr>Version := EVersion updatedEntry\<rparr>;
         journal = journal\<lparr>UpdatedAt := Now2 env\<rparr>
     in case UpdateOne (WriteErr env) (owned journalID userID)
               (\<lambda>d. d\<lparr>Entries := Entries journal, Version := Version journal,
                       UpdatedAt := UpdatedAt journal\<rparr>) docs of
          None \<Rightarrow> (JSON 500 (error_body ''Error updating journal entry''), docs)
        | Some docs' \<Rightarrow> (JSON 200 (JournalB journal), docs'))))))"

definition ProcessJournalEntry ::
  "Env \<Rightarrow> Context \<Rightarrow> JournalEntry list \<Rightarrow> outcome \<times> JournalEntry list"
where
  "ProcessJournalEntry env c docs =
    (let journalID = Param c ''journalid'' in
     case MustGet c ''userID'' of Inl p \<Rightarrow> (Panicked p, docs) | Inr v \<Rightarrow>
    (case assertString v of Inl p \<Rightarrow> (Panicked p, docs) | Inr userID \<Rightarrow>
    (case UpdateOne (WriteErr env) (owned journalID userID)
               (\<lambda>d. d\<lparr>Status := ''processing''\<rparr>) docs of
       None \<Rightarrow> (JSON 500 (error_body ''Error processing journal entry''), docs)
     | Some docs' \<Rightarrow> (JSON 200 (message_body ''Journal entry is being processed''), docs'))))"

text \<open>
  The loop of \<open>SetJournalVersion\<close> over the entries returns from the handler at the first
  entry whose version is the requested one; \<open>None\<close> is the loop running to its end.
\<close>

fun version_loop ::
  "Env \<Rightarrow> JournalEntry filter \<Rightarrow> 64 word \<Rightarrow> JournalEntry \<Rightarrow> JournalEntry list \<Rightarrow> Entry list
    \<Rightarrow> (outcome \<times> JournalEntry list) option"
where
  "version_loop env flt version journal docs [] = None"
| "version_loop env flt version journal docs (entry # rest) =
    (if EVersion entry = version then
       (let journal = journal\<lparr>Version := version\<rparr>;
            journal = journal\<lparr>UpdatedAt := Now1 env\<rparr>
        in case UpdateOne (WriteErr env) flt
                  (\<lambda>d. d\<lparr>Version := Version journal, UpdatedAt := UpdatedAt journal\<rparr>) docs of
             None \<Rightarrow> Some (JSON 500 (error_body ''Error setting journal version''), docs)
           | Some docs' \<Rightarrow> Some (JSON 200 (JournalB journal), docs'))
     else version_loop env flt version journal docs rest)"

definition SetJournalVersion ::
  "(string \<Rightarrow> string + 64 word) \<Rightarrow> Env \<Rightarrow> Context \<Rightarrow> JournalEntry list \<Rightarrow> outcome \<times> JournalEntry list"
where
  "SetJournalVersion bindJSON env c docs =
    (let journalID = Param c ''journalid'' in
     case MustGet c ''userID'' of Inl p \<Rightarrow> (Panicked p, docs) | Inr v \<Rightarrow>
    (case assertString v of Inl p \<Rightarrow> (Panicked p, docs) | Inr userID \<Rightarrow>
    (case bindJSON (Body c) of
       Inl err \<Rightarrow> (JSON 400 (error_body err), docs)
     | Inr version \<Rightarrow>
    (case FindOne (FindErr env) (owned journalID userID) docs of
       None \<Rightarrow> (JSON 404 (error_body ''Journal entry not found''), docs)
     | Some journal \<Rightarrow>
    (case version_loop env (owned journalID userID) version journal docs (Entries journal) of
       Some r \<Rightarrow> r
     | None \<Rightarrow> (JSON 400 (error_body ''Version not found''), docs))))))"

definition SetJournalStatus ::
  "(string \<Rightarrow> string + string) \<Rightarrow> Env \<Rightarrow> Context \<Rightarrow> JournalEntry list \<Rightarrow> outcome \<times> JournalEntry list"
where
  "SetJournalStatus bindJSON env c docs =
    (let journalID = Param c ''journalid'' in
     case MustGet c ''userID'' of Inl p \<Rightarrow> (Panicked p, docs) | Inr v \<Rightarrow>
    (case assertString v of Inl p \<Rightarrow> (Panicked p, docs) | Inr userID \<Rightarrow>
    (case bindJSON (Body c) of
       Inl err \<Rightarrow> (JSON 400 (error_body err), docs)
     | Inr status \<Rightarrow>
    (case UpdateOne (WriteErr env) (owned journalID userID)
               (\<lambda>d. d\<lparr>Status := status, UpdatedAt := Now1 env\<rparr>) docs of
       None \<Rightarrow> (JSON 500 (error_body ''Error setting journal status''), docs)
     | Some docs' \<Rightarrow> (JSON 200 (message_body ''Journal status updated''), docs')))))"

text \<open>
  \<open>GetJournalEntry\<close> reads only; it looks the journal up by its identifier alone. The
  anonymous branch takes \<open>journal.Entries[len(journal.Entries)-1]\<close> behind the guard
  \<open>len(journal.Entries) > 0\<close>.
\<close>

definition GetJournalEntry :: "Env \<Rightarrow> Context \<Rightarrow> JournalEntry list \<Rightarrow> outcome" where
  "GetJournalEntry env c docs =
    (let journalID = Param c ''journalid'' in
     case FindOne (FindErr env) [journal_id_is journalID] docs of
       None \<Rightarrow> JSON 404 (error_body ''Journal entry not found'')
     | Some journal \<Rightarrow>
         (if Keys c ''user'' \<noteq> None \<and> Keys c ''user'' \<noteq> Some NilV then
            JSON 200 (H [(''createdAt'', TimeF (CreatedAt journal)),
                         (''updatedAt'', TimeF (UpdatedAt journal)),
                         (''version'', IntF (Version journal)),
                         (''status'', StringF (Status journal)),
                         (''userID'', StringF (UserID journal)),
                         (''entries'', EntriesF (Entries journal)),
                         (''taxonomy'', TaxonomyF (Taxonomy journal)),
                         (''summary'', StringF (Summary journal))])
          else
            (let latestEntry = [];
                 latestEntry = (if length (Entries journal) > 0
                                then latestEntry @ [Entries journal ! (length (Entries journal) - 1)]
                                else latestEntry)
             in JSON 200 (H [(''journalID'', StringF (JournalID journal)),
                             (''userID'', StringF (UserID journal)),
                             (''version'', IntF (Version journal)),
                             (''status'', StringF (Status journal)),
                             (''taxonomy'', TaxonomyF (Taxonomy journal)),
                             (''summary'', StringF (Summary journal)),
                             (''entries'', EntriesF latestEntry)]))))"

text \<open>
  \<open>GetPublicJournals\<close> starts from the filter \<open>{status: "public"}\<close> and adds a condition for
  each query parameter that is not empty. The range condition compares the stored
  \<open>created_at\<close> with the two query strings inside the store; that comparison is the
  parameter \<open>between\<close>. The handler answers 500 both when \<open>Find\<close> fails and when
  \<open>cursor.All\<close> fails.
\<close>

definition GetPublicJournals ::
  "(string \<Rightarrow> string \<Rightarrow> time \<Rightarrow> bool) \<Rightarrow> Env \<Rightarrow> Context \<Rightarrow> JournalEntry list \<Rightarrow> outcome"
where
  "GetPublicJournals between env c docs =
    (let flt = [status_is ''public''];
         startDate = Query c ''start'';
         endDate = Query c ''end'';
         category = Query c ''category'';
         subcategory = Query c ''subcategory'';
         topic = Query c ''topic'';
         tag = Query c ''tag'';
         user = Query c ''user'';
         flt = (if startDate \<noteq> [] \<and> endDate \<noteq> []
                then flt @ [\<lambda>j. between startDate endDate (CreatedAt j)] else flt);
         flt = (if category \<noteq> [] then flt @ [categories_has category] else flt);
         flt = (if subcategory \<noteq> [] then flt @ [subcategories_has subcategory] else flt);
         flt = (if topic \<noteq> [] then flt @ [topics_has topic] else flt);
         flt = (if tag \<noteq> [] then flt @ [tags_has tag] else flt);
         flt = (if user \<noteq> [] then flt @ [user_id_is user] else flt)
     in case Find (FindErr env) flt docs of
          None \<Rightarrow> JSON 500 (error_body ''Error retrieving journal entries'')
        | Some cursor \<Rightarrow>
            (if CursorErr env then JSON 500 (error_body ''Error parsing journal entries'')
             else JSON 200 (JournalsB cursor)))"

definition DeleteJournalEntry ::
  "Env \<Rightarrow> Context \<Rightarrow> JournalEntry list \<Rightarrow> outcome \<times> JournalEntry list"
where
  "DeleteJournalEntry env c docs =
    (let journalID = Param c ''journalid'' in
     case MustGet c ''userID'' of Inl p \<Rightarrow> (Panicked p, docs) | Inr v \<Rightarrow>
    (case assertString v of Inl p \<Rightarrow> (Panicked p, docs) | Inr userID \<Rightarrow>
    (case DeleteOne (WriteErr env) (owned journalID userID) docs of
       None \<Rightarrow> (JSON 500 (error_body ''Error deleting journal entry''), docs)
     | Some docs' \<Rightarrow> (JSON 200 (message_body ''Journal entry deleted''), docs'))))"

section \<open>Middleware and routing (main.go, auth middleware, journal.InitializeRoutes)\<close>

text \<open>\<open>strings.Split\<close> on a one-byte separator.\<close>

fun Split :: "string \<Rightarrow> char \<Rightarrow> string list" where
  "Split [] sep = [[]]"
| "Split (x # xs) sep =
    (if x = sep then [] # Split xs sep
     else (case Split xs sep of [] \<Rightarrow> [[x]] | p # ps \<Rightarrow> (x # p) # ps))"

text \<open>
  \<open>extractSubdomain\<close>; \<open>net.SplitHostPort\<close> is the parameter \<open>splitHostPort\<close>, which
  yields the host part or fails.
\<close>

definition extractSubdomain :: "(string \<Rightarrow> string option) \<Rightarrow> string \<Rightarrow> string" where
  "extractSubdomain splitHostPort host =
    (let hostname = (case splitHostPort host of None \<Rightarrow> host | Some h \<Rightarrow> h);
         parts = Split hostname (CHR ''.'')
     in if length parts > 2 then parts ! 0 else [])"

definition extractIdentifierMiddleware :: "(string \<Rightarrow> string option) \<Rightarrow> Context \<Rightarrow> Context" where
  "extractIdentifierMiddleware splitHostPort c =
    (let host = Host c;
         subdomain = extractSubdomain splitHostPort host;
         email = Param c ''email''
     in if subdomain \<noteq> [] then Set c ''identifier'' (Str subdomain)
        else if email \<noteq> [] then Set c ''identifier'' (Str email)
        else c)"

text \<open>
  \<open>AuthMiddleware\<close>: \<open>Inl\<close> is \<open>AbortWithStatusJSON\<close>, \<open>Inr\<close> is \<open>c.Next()\<close> with the
  context as the middleware leaves it. \<open>jwt.ParseWithClaims\<close> with the fixed key is the
  parameter \<open>parseWithClaims\<close>: the identifier in the claims of a valid token.
\<close>

definition AuthMiddleware ::
  "(string \<Rightarrow> string option) \<Rightarrow> bool \<Rightarrow> User list \<Rightarrow> bool \<Rightarrow> Context \<Rightarrow> outcome + Context"
where
  "AuthMiddleware parseWithClaims findErr users required c =
    (case Cookies c ''token'' of
       None \<Rightarrow>
         (if required then Inl (JSON 401 (error_body ''Not authenticated'')) else Inr c)
     | Some token \<Rightarrow>
    (case parseWithClaims token of
       None \<Rightarrow>
         (if required then Inl (JSON 401 (error_body ''Not authenticated'')) else Inr c)
     | Some claimsId \<Rightarrow>
    (case FindOne findErr [\<lambda>u. ID u = claimsId] users of
       None \<Rightarrow>
         (if required then Inl (JSON 401 (error_body ''Not authenticated'')) else Inr c)
     | Some user \<Rightarrow> Inr (Set c ''user'' (UserV user)))))"

text \<open>
  The engine is \<open>gin.Default()\<close>: its recovery middleware answers a panic with status 500
  and no body. Every request starts with no keys in its context.
\<close>

definition Recovery :: "outcome \<times> 's \<Rightarrow> outcome \<times> 's" where
  "Recovery r = (case fst r of Panicked p \<Rightarrow> (JSON 500 NoBody, snd r) | JSON st b \<Rightarrow> r)"

definition reset :: "Context \<Rightarrow> Context" where
  "reset c = c\<lparr>Keys := Map.empty\<rparr>"

text \<open>A route of the \<open>protected\<close> group, and a route registered on the group's parent.\<close>

definition protected ::
  "(string \<Rightarrow> string option) \<Rightarrow> (string \<Rightarrow> string option) \<Rightarrow> bool \<Rightarrow> User list
    \<Rightarrow> (Context \<Rightarrow> 's \<Rightarrow> outcome \<times> 's) \<Rightarrow> Context \<Rightarrow> 's \<Rightarrow> outcome \<times> 's"
where
  "protected splitHostPort parseWithClaims findErr users handler c docs =
    Recovery
      (case AuthMiddleware parseWithClaims findErr users True
              (extractIdentifierMiddleware splitHostPort (reset c)) of
         Inl aborted \<Rightarrow> (aborted, docs)
       | Inr c' \<Rightarrow> handler c' docs)"

definition unprotected ::
  "(string \<Rightarrow> string option) \<Rightarrow> (Context \<Rightarrow> 's \<Rightarrow> outcome \<times> 's) \<Rightarrow> Context \<Rightarrow> 's \<Rightarrow> outcome \<times> 's"
where
  "unprotected splitHostPort handler c docs =
    Recovery (handler (extractIdentifierMiddleware splitHostPort (reset c)) docs)"

section \<open>The image stores (profile/image_store_local.go, the object-storage store)\<close>

type_synonym blob = "8 word list"

datatype save_error = CreateFailed | CopyFailed | UploadFailed

record LocalImageStore =
  BasePath :: string

text \<open>
  The file system maps a path to the file's contents. \<open>filepath.Join\<close> is the parameter
  \<open>Join\<close>. \<open>os.Create\<close> truncates an existing file; \<open>io.Copy\<close> may stop with an error
  after some bytes were written (\<open>copyErr = Some n\<close>).
\<close>

definition LocalImageStore_SaveImage ::
  "(string \<Rightarrow> string \<Rightarrow> string) \<Rightarrow> bool \<Rightarrow> nat option \<Rightarrow> LocalImageStore
    \<Rightarrow> string \<Rightarrow> string \<Rightarrow> blob \<Rightarrow> (string \<rightharpoonup> blob) \<Rightarrow> (save_error + string) \<times> (string \<rightharpoonup> blob)"
where
  "LocalImageStore_SaveImage Join createErr copyErr l userID filename file fs =
    (let imageName = userID @ ''-'' @ filename;
         imagePath = Join (BasePath l) imageName
     in if createErr then (Inl CreateFailed, fs)
        else (let fs = fs(imagePath \<mapsto> [])
              in case copyErr of
                   Some n \<Rightarrow> (Inl CopyFailed, fs(imagePath \<mapsto> take n file))
                 | None \<Rightarrow> (Inr (''/images/'' @ imageName), fs(imagePath \<mapsto> file))))"

record S3ImageStore =
  BucketName :: string

text \<open>\<open>strings.Contains\<close> and \<open>strings.Replace\<close> with count 1.\<close>

fun Contains :: "string \<Rightarrow> string \<Rightarrow> bool" where
  "Contains [] substr = (substr = [])"
| "Contains (x # xs) substr = (prefix substr (x # xs) \<or> Contains xs substr)"

fun Replace1 :: "string \<Rightarrow> string \<Rightarrow> string \<Rightarrow> string" where
  "Replace1 [] old new = (if old = [] then new else [])"
| "Replace1 (x # xs) old new =
    (if prefix old (x # xs) then new @ drop (length old) (x # xs)
     else x # Replace1 xs old new)"

text \<open>
  The object store maps a bucket and a key to the object's contents. The environment
  variables \<open>AWS_S3_ENDPOINT\<close> and \<open>AWS_REGION\<close> are the parameters \<open>endpoint\<close> and
  \<open>region\<close> (empty when unset).
\<close>

definition S3ImageStore_SaveImage ::
  "string \<Rightarrow> string \<Rightarrow> bool \<Rightarrow> S3ImageStore
    \<Rightarrow> string \<Rightarrow> string \<Rightarrow> blob \<Rightarrow> (string \<times> string \<rightharpoonup> blob)
    \<Rightarrow> (save_error + string) \<times> (string \<times> string \<rightharpoonup> blob)"
where
  "S3ImageStore_SaveImage endpoint region putErr s userID filename file objects =
    (let imageName = userID @ ''-'' @ filename
     in if putErr then (Inl UploadFailed, objects)
        else (let objects = objects((BucketName s, imageName) \<mapsto> file);
                  imageURL =
                    (if endpoint \<noteq> [] then
                       (let publicEndpoint = endpoint;
                            publicEndpoint =
                              (if Contains endpoint ''localstack''
                               then Replace1 endpoint ''localstack'' ''localhost''
                               else publicEndpoint)
                        in publicEndpoint @ ''/'' @ BucketName s @ ''/'' @ imageName)
                     else ''https://'' @ BucketName s @ ''.s3.'' @ region
                            @ ''.amazonaws.com/'' @ imageName)
              in (Inr imageURL, objects)))"

text \<open>
  The contract of the image store in the specification's words: \<open>store(ownerID, filename,
  binaryStream) -> URL\<close> with the deterministic name \<open>{ownerID}-{filename}\<close>. A store is a
  saving operation on some state together with the way a blob is fetched back by its name.
\<close>

definition image_key :: "string \<Rightarrow> string \<Rightarrow> string" where
  "image_key ownerID filename = ownerID @ ''-'' @ filename"

definition image_store_contract ::
  "(string \<Rightarrow> string \<Rightarrow> blob \<Rightarrow> 's \<Rightarrow> (save_error + string) \<times> 's) \<Rightarrow> ('s \<Rightarrow> string \<Rightarrow> blob option) \<Rightarrow> bool"
where
  "image_store_contract save fetch \<longleftrightarrow>
    (\<forall>ownerID filename file s url s'.
       save ownerID filename file s = (Inr url, s') \<longrightarrow>
         suffix (image_key ownerID filename) url \<and>
         fetch s' (image_key ownerID filename) = Some file)"

section \<open>Sequences of requests\<close>

text \<open>
  Appends one after the other by the handler alone, on one context (the same journal
  identifier and the same context keys); each request has its own surroundings and body.
\<close>

fun append_all ::
  "(string \<Rightarrow> string + Entry) \<Rightarrow> Context \<Rightarrow> (Env \<times> string) list \<Rightarrow> JournalEntry list
    \<Rightarrow> JournalEntry list"
where
  "append_all bindJSON c [] docs = docs"
| "append_all bindJSON c ((env, b) # reqs) docs =
    append_all bindJSON c reqs (snd (UpdateJournalEntry bindJSON env (c\<lparr>Body := b\<rparr>) docs))"

text \<open>
  Appends one after the other through the registered route \<open>PUT /:journalid\<close>; each
  request arrives with its own context and surroundings.
\<close>

fun routed_appends ::
  "(string \<Rightarrow> string option) \<Rightarrow> (string \<Rightarrow> string option) \<Rightarrow> bool \<Rightarrow> User list
    \<Rightarrow> (string \<Rightarrow> string + Entry) \<Rightarrow> (Env \<times> Context) list \<Rightarrow> JournalEntry list
    \<Rightarrow> JournalEntry list"
where
  "routed_appends splitHostPort parseWithClaims findErr users bindJSON [] docs = docs"
| "routed_appends splitHostPort parseWithClaims findErr users bindJSON ((env, c) # reqs) docs =
    routed_appends splitHostPort parseWithClaims findErr users bindJSON reqs
      (snd (protected splitHostPort parseWithClaims findErr users
              (UpdateJournalEntry bindJSON env) c docs))"

text \<open>The HTTP status of an outcome (0 for a panic).\<close>

definition status_code :: "outcome \<times> 's \<Rightarrow> nat" where
  "status_code r = (case fst r of JSON st b \<Rightarrow> st | Panicked p \<Rightarrow> 0)"

section \<open>Sample requests and documents\<close>

text \<open>
  Concrete inputs on which the theorems below are instantiated. The sample binders stand
  for \<open>ShouldBindJSON\<close> on a body that carries only a title (so the version field keeps
  Go's zero value), a title and the version 1, only a status, or only a version number.
\<close>

definition env0 :: Env where
  "env0 = \<lparr>Now1 = 100, Now2 = 101, NewID = ''j1'', FindErr = False, CursorErr = False,
     WriteErr = False\<rparr>"

definition bind_title :: "string \<Rightarrow> string + Entry" where
  "bind_title b = (if b = [] then Inl ''EOF''
     else Inr \<lparr>EVersion = 0, Title = b, Content = [], Attachments = [], EUpdatedAt = 0\<rparr>)"

definition bind_v1 :: "string \<Rightarrow> string + Entry" where
  "bind_v1 b = (if b = [] then Inl ''EOF''
     else Inr \<lparr>EVersion = 1, Title = b, Content = [], Attachments = [], EUpdatedAt = 0\<rparr>)"

definition bind_status :: "string \<Rightarrow> string + string" where
  "bind_status b = (if b = [] then Inl ''EOF'' else Inr b)"

definition bind_version :: "string \<Rightarrow> string + 64 word" where
  "bind_version b = (if b = [] then Inl ''EOF'' else Inr (word_of_nat (length b)))"

text \<open>
  A user, and the token that the sample verifier resolves to that user.
\<close>

definition user1 :: User where
  "user1 = \<lparr>ID = ''u1'', Name = ''Ann'', Email = ''ann@example.org'', Password = ''x''\<rparr>"

definition parse_t1 :: "string \<Rightarrow> string option" where
  "parse_t1 token = (if token = ''t1'' then Some ''u1'' else None)"

definition no_port :: "string \<Rightarrow> string option" where
  "no_port host = None"

text \<open>
  Requests as they arrive, with no key in the context: the requests of the user carry
  the cookie \<open>token\<close>; the path parameter names the journal \<open>j1\<close>.
\<close>

definition cookie_ctx :: Context where
  "cookie_ctx = \<lparr>Keys = Map.empty, Params = [''journalid'' \<mapsto> ''j1''],
     Queries = Map.empty, Cookies = [''token'' \<mapsto> ''t1''], Host = ''localhost'', Body = ''public''\<rparr>"

definition req_create :: Context where
  "req_create = cookie_ctx\<lparr>Params := Map.empty, Body := ''Day 1''\<rparr>"

definition req_append :: Context where
  "req_append = cookie_ctx\<lparr>Body := ''Day 2''\<rparr>"

definition req_version2 :: Context where
  "req_version2 = cookie_ctx\<lparr>Body := ''ab''\<rparr>"

definition req_version7 :: Context where
  "req_version7 = cookie_ctx\<lparr>Body := ''abcdefg''\<rparr>"

definition req_delete :: Context where
  "req_delete = cookie_ctx\<lparr>Body := []\<rparr>"

definition req_read :: Context where
  "req_read = cookie_ctx\<lparr>Body := []\<rparr>"

definition anon_ctx :: Context where
  "anon_ctx = \<lparr>Keys = Map.empty, Params = [''journalid'' \<mapsto> ''j1''],
     Queries = Map.empty, Cookies = Map.empty, Host = ''localhost'', Body = []\<rparr>"

definition public_query :: Context where
  "public_query = \<lparr>Keys = Map.empty, Params = Map.empty, Queries = [''user'' \<mapsto> ''u2''],
     Cookies = Map.empty, Host = ''localhost'', Body = []\<rparr>"

text \<open>The context of a create request after the authentication middleware.\<close>

definition creator_ctx :: Context where
  "creator_ctx = \<lparr>Keys = [''user'' \<mapsto> UserV user1], Params = Map.empty,
     Queries = Map.empty, Cookies = Map.empty, Host = ''localhost'', Body = ''Day 1''\<rparr>"

text \<open>Stored journals.\<close>

definition no_taxonomy :: Taxonomy where
  "no_taxonomy = \<lparr>Categories = [], Subcategories = [], Topics = [], Tags = []\<rparr>"

definition entry1 :: Entry where
  "entry1 = \<lparr>EVersion = 1, Title = ''Day 1'', Content = [], Attachments = [], EUpdatedAt = 10\<rparr>"

definition entry2 :: Entry where
  "entry2 = \<lparr>EVersion = 2, Title = ''Day 2'', Content = [], Attachments = [], EUpdatedAt = 20\<rparr>"

definition entry3 :: Entry where
  "entry3 = \<lparr>EVersion = 3, Title = ''Day 3'', Content = [], Attachments = [], EUpdatedAt = 30\<rparr>"

definition journal1 :: JournalEntry where
  "journal1 = \<lparr>JournalID = ''j1'', UserID = ''u1'', Version = 1, Entries = [entry1, entry2, entry3],
     Status = ''pending'', Taxonomy = no_taxonomy, Summary = [], CreatedAt = 10, UpdatedAt = 30\<rparr>"

definition journal2 :: JournalEntry where
  "journal2 = \<lparr>JournalID = ''j2'', UserID = ''u2'', Version = 1, Entries = [entry1],
     Status = ''public'', Taxonomy = no_taxonomy, Summary = [], CreatedAt = 40, UpdatedAt = 40\<rparr>"

text \<open>The journal that creation by \<open>u1\<close> with the title-only payload stores.\<close>

definition created_journal :: JournalEntry where
  "created_journal = \<lparr>JournalID = ''j1'', UserID = ''u1'', Version = 1,
     Entries = [\<lparr>EVersion = 0, Title = ''Day 1'', Content = [], Attachments = [], EUpdatedAt = 0\<rparr>],
     Status = ''pending'', Taxonomy = no_taxonomy, Summary = [], CreatedAt = 100, UpdatedAt = 101\<rparr>"

text \<open>
  Two requests of the user through the registered routes, on an empty collection:
  create (with a payload that carries version 1), then append to the journal created.
\<close>

definition routed_create :: "outcome \<times> JournalEntry list" where
  "routed_create =
     protected no_port parse_t1 False [user1] (CreateJournalEntry bind_v1 env0) req_create []"

definition routed_append :: "outcome \<times> JournalEntry list" where
  "routed_append =
     protected no_port parse_t1 False [user1] (UpdateJournalEntry bind_v1 env0) req_append
       (snd routed_create)"

text \<open>Sample image stores; joining a directory and a clean file name puts a slash between them.\<close>

definition join_slash :: "string \<Rightarrow> string \<Rightarrow> string" where
  "join_slash dir name = dir @ ''/'' @ name"

definition local_store :: LocalImageStore where
  "local_store = \<lparr>BasePath = ''/data''\<rparr>"

definition s3_store :: S3ImageStore where
  "s3_store = \<lparr>BucketName = ''img''\<rparr>"

section \<open>The store operations\<close>

lemma find_split:
  "find p xs = Some d \<Longrightarrow> \<exists>ys zs. xs = ys @ d # zs \<and> p d \<and> (\<forall>y\<in>set ys. \<not> p y)"
proof (induction xs)
  case Nil
  then show ?case by simp
next
  case (Cons x xs)
  show ?case
  proof (cases "p x")
    case True
    with Cons.prems have "x = d" by simp
    with True have "x # xs = [] @ d # xs \<and> p d \<and> (\<forall>y\<in>set []. \<not> p y)" by simp
    then show ?thesis by blast
  next
    case False
    with Cons.prems have "find p xs = Some d" by simp
    from Cons.IH [OF this] obtain ys zs
      where "xs = ys @ d # zs" "p d" "\<forall>y\<in>set ys. \<not> p y" by blast
    with False have "x # xs = (x # ys) @ d # zs \<and> p d \<and> (\<forall>y\<in>set (x # ys). \<not> p y)" by simp
    then show ?thesis by blast
  qed
qed

lemma find_first_match:
  "(\<forall>y\<in>set ys. \<not> p y) \<Longrightarrow> p d \<Longrightarrow> find p (ys @ d # zs) = Some d"
  by (induction ys) simp_all

lemma update_first_at:
  "(\<forall>y\<in>set ys. \<not> p y) \<Longrightarrow> p d \<Longrightarrow> update_first p f (ys @ d # zs) = ys @ f d # zs"
  by (induction ys) simp_all

lemma delete_first_at:
  "(\<forall>y\<in>set ys. \<not> p y) \<Longrightarrow> p d \<Longrightarrow> delete_first p (ys @ d # zs) = ys @ zs"
  by (induction ys) simp_all

lemma update_first_no_match:
  "find p xs = None \<Longrightarrow> update_first p f xs = xs"
  by (induction xs) (simp_all split: if_splits)

lemma delete_first_no_match:
  "find p xs = None \<Longrightarrow> delete_first p xs = xs"
  by (induction xs) (simp_all split: if_splits)

section \<open>The public listing\<close>

lemma matches_single: "matches [p] = p"
  by (simp add: matches_def fun_eq_iff)

lemma matches_if_append:
  "matches (if b then flt @ [p] else flt) = (\<lambda>d. matches flt d \<and> (b \<longrightarrow> p d))"
  by (simp add: matches_def fun_eq_iff)

lemma GetPublicJournals_run:
  "GetPublicJournals between env c docs =
     (if FindErr env then JSON 500 (error_body ''Error retrieving journal entries'')
      else if CursorErr env then JSON 500 (error_body ''Error parsing journal entries'')
      else JSON 200 (JournalsB (filter (\<lambda>j.
        Status j = ''public'' \<and>
        (Query c ''start'' \<noteq> [] \<and> Query c ''end'' \<noteq> [] \<longrightarrow>
           between (Query c ''start'') (Query c ''end'') (CreatedAt j)) \<and>
        (Query c ''category'' \<noteq> [] \<longrightarrow> Query c ''category'' \<in> set (Categories (Taxonomy j))) \<and>
        (Query c ''subcategory'' \<noteq> [] \<longrightarrow>
           Query c ''subcategory'' \<in> set (Subcategories (Taxonomy j))) \<and>
        (Query c ''topic'' \<noteq> [] \<longrightarrow> Query c ''topic'' \<in> set (Topics (Taxonomy j))) \<and>
        (Query c ''tag'' \<noteq> [] \<longrightarrow> Query c ''tag'' \<in> set (Tags (Taxonomy j))) \<and>
        (Query c ''user'' \<noteq> [] \<longrightarrow> UserID j = Query c ''user'')) docs)))"
  by (simp add: GetPublicJournals_def Let_def Find_def matches_if_append matches_single
      status_is_def categories_has_def subcategories_has_def topics_has_def tags_has_def
      user_id_is_def)

text \<open>
  C7. Whatever the collection holds and whatever the query parameters \<open>start\<close>, \<open>end\<close>,
  \<open>category\<close>, \<open>subcategory\<close>, \<open>topic\<close>, \<open>tag\<close> and \<open>user\<close> are, a public listing that answers
  with a list answers with documents of the collection whose status is \<open>public\<close>; and it
  answers with a list whenever the store answers and the cursor's documents decode.
\<close>

theorem GetPublicJournals_only_public:
  "(\<forall>journals. GetPublicJournals between env c docs = JSON 200 (JournalsB journals) \<longrightarrow>
      (\<forall>j\<in>set journals. Status j = ''public'' \<and> j \<in> set docs)) \<and>
   (\<not> FindErr env \<and> \<not> CursorErr env \<longrightarrow>
      (\<exists>journals. GetPublicJournals between env c docs = JSON 200 (JournalsB journals)))"
  by (auto simp: GetPublicJournals_run error_body_def)

theorem GetPublicJournals_only_public_witness:
  "GetPublicJournals (\<lambda>s e t. False) env0 public_query [journal1, journal2] =
     JSON 200 (JournalsB [journal2]) \<and>
   Status journal2 = ''public'' \<and> Status journal1 = ''pending'' \<and>
   \<not> FindErr env0 \<and> \<not> CursorErr env0"
  using GetPublicJournals_only_public [of "\<lambda>s e t. False" env0 public_query "[journal1, journal2]"]
  by (simp add: GetPublicJournals_run public_query_def env0_def journal1_def journal2_def Query_def)

section \<open>Reading a journal on the registered route\<close>

text \<open>
  The branch of \<open>GetJournalEntry\<close> for a context that holds a user: it answers with the
  metadata, all entries, the taxonomy and the summary.
\<close>

lemma GetJournalEntry_authenticated_run:
  assumes "Keys c ''user'' = Some v" and "v \<noteq> NilV"
    and "FindOne (FindErr env) [journal_id_is (Param c ''journalid'')] docs = Some journal"
  shows "GetJournalEntry env c docs =
           JSON 200 (H [(''createdAt'', TimeF (CreatedAt journal)),
                        (''updatedAt'', TimeF (UpdatedAt journal)),
                        (''version'', IntF (Version journal)),
                        (''status'', StringF (Status journal)),
                        (''userID'', StringF (UserID journal)),
                        (''entries'', EntriesF (Entries journal)),
                        (''taxonomy'', TaxonomyF (Taxonomy journal)),
                        (''summary'', StringF (Summary journal))])"
  using assms by (simp add: GetJournalEntry_def)

text \<open>
  On the route as registered (\<open>router.GET("/:journalid", GetJournalEntry)\<close>, outside the
  protected group), no middleware sets the key \<open>user\<close>.
\<close>

lemma unprotected_no_user:
  "Keys (extractIdentifierMiddleware splitHostPort (reset c)) ''user'' = None"
  by (simp add: extractIdentifierMiddleware_def reset_def Set_def Let_def)

lemma GetJournalEntry_never_panics: "\<exists>st b. GetJournalEntry env c docs = JSON st b"
  by (simp add: GetJournalEntry_def Let_def split: option.splits)

lemma unprotected_GetJournalEntry:
  "unprotected splitHostPort (\<lambda>c docs. (GetJournalEntry env c docs, docs)) c docs =
     (GetJournalEntry env (extractIdentifierMiddleware splitHostPort (reset c)) docs, docs)"
proof -
  obtain st b where "GetJournalEntry env (extractIdentifierMiddleware splitHostPort (reset c)) docs = JSON st b"
    using GetJournalEntry_never_panics by blast
  then show ?thesis by (simp add: unprotected_def Recovery_def)
qed

text \<open>
  C4. The claim is that a read with a resolved identity is answered with the full
  aggregate, all entries included. The sample request carries the valid cookie of the
  journal's owner (the optional authentication middleware would resolve it to the user),
  but the route of the read runs no authentication middleware, so the handler finds no
  user and answers with the anonymous projection: of the three entries only the last.
\<close>

theorem authenticated_read_gets_anonymous_projection:
  "AuthMiddleware parse_t1 False [user1] False (extractIdentifierMiddleware no_port (reset req_read))
     = Inr (req_read\<lparr>Keys := [''user'' \<mapsto> UserV user1]\<rparr>) \<and>
   ID user1 = UserID journal1 \<and>
   Entries journal1 = [entry1, entry2, entry3] \<and>
   unprotected no_port (\<lambda>c docs. (GetJournalEntry env0 c docs, docs)) req_read [journal1] =
     (JSON 200 (H [(''journalID'', StringF ''j1''), (''userID'', StringF ''u1''),
                   (''version'', IntF 1), (''status'', StringF ''pending''),
                   (''taxonomy'', TaxonomyF no_taxonomy), (''summary'', StringF []),
                   (''entries'', EntriesF [entry3])]),
      [journal1])"
  by (simp add: AuthMiddleware_def extractIdentifierMiddleware_def extractSubdomain_def no_port_def
      reset_def req_read_def cookie_ctx_def parse_t1_def user1_def FindOne_def matches_def Set_def
      Param_def journal1_def Let_def unprotected_def Recovery_def GetJournalEntry_def
      journal_id_is_def env0_def)

section \<open>Reading a journal without an identity\<close>

text \<open>
  C5. For a read of a journal that exists and has entries, with no identity in the context,
  the response is 200 with the aggregate's \<open>journalID\<close>, \<open>userID\<close>, \<open>version\<close>, \<open>status\<close>,
  \<open>taxonomy\<close> and \<open>summary\<close>, and with \<open>entries\<close> the one-element sequence holding the last
  entry of the aggregate, wherever the version pointer points.
\<close>

theorem GetJournalEntry_anonymous:
  assumes "Keys c ''user'' = None \<or> Keys c ''user'' = Some NilV"
    and "FindOne (FindErr env) [journal_id_is (Param c ''journalid'')] docs = Some journal"
    and "Entries journal \<noteq> []"
  shows "GetJournalEntry env c docs =
           JSON 200 (H [(''journalID'', StringF (JournalID journal)),
                        (''userID'', StringF (UserID journal)),
                        (''version'', IntF (Version journal)),
                        (''status'', StringF (Status journal)),
                        (''taxonomy'', TaxonomyF (Taxonomy journal)),
                        (''summary'', StringF (Summary journal)),
                        (''entries'', EntriesF [last (Entries journal)])])"
  using assms by (auto simp: GetJournalEntry_def last_conv_nth)

theorem GetJournalEntry_anonymous_witness:
  "Keys anon_ctx ''user'' = None \<and>
   FindOne (FindErr env0) [journal_id_is (Param anon_ctx ''journalid'')] [journal1] = Some journal1 \<and>
   Entries journal1 = [entry1, entry2, entry3] \<and> Version journal1 = 1 \<and>
   EVersion entry1 = 1 \<and> EVersion entry3 = 3 \<and>
   GetJournalEntry env0 anon_ctx [journal1] =
     JSON 200 (H [(''journalID'', StringF ''j1''), (''userID'', StringF ''u1''),
                  (''version'', IntF 1), (''status'', StringF ''pending''),
                  (''taxonomy'', TaxonomyF no_taxonomy), (''summary'', StringF []),
                  (''entries'', EntriesF [entry3])])"
  using GetJournalEntry_anonymous [of anon_ctx env0 "[journal1]" journal1]
  by (simp add: anon_ctx_def env0_def journal1_def entry1_def entry3_def
      FindOne_def matches_def journal_id_is_def Param_def)

section \<open>The protected routes never reach the store\<close>

lemma extractIdentifierMiddleware_keys:
  "k \<noteq> ''identifier'' \<Longrightarrow> Keys (extractIdentifierMiddleware splitHostPort (reset c)) k = None"
  by (simp add: extractIdentifierMiddleware_def reset_def Set_def Let_def)

lemma AuthMiddleware_required_sets_user:
  assumes "AuthMiddleware parseWithClaims findErr users True c = Inr c'"
  shows "\<exists>u. Keys c' = (Keys c)(''user'' \<mapsto> UserV u)"
  using assms
  by (auto simp: AuthMiddleware_def Set_def split: option.splits)

lemma MustGet_missing:
  "Keys c k = None \<Longrightarrow> MustGet c k = Inl (KeyDoesNotExist k)"
  by (simp add: MustGet_def)

lemma middleware_leaves_userID_unset:
  assumes "AuthMiddleware parseWithClaims findErr users True
             (extractIdentifierMiddleware splitHostPort (reset c)) = Inr c'"
  shows "Keys c' ''userID'' = None" and "\<exists>u. Keys c' ''user'' = Some (UserV u)"
proof -
  let ?c0 = "extractIdentifierMiddleware splitHostPort (reset c)"
  from AuthMiddleware_required_sets_user [OF assms] obtain u
    where keys: "Keys c' = (Keys ?c0)(''user'' \<mapsto> UserV u)" by blast
  have "Keys ?c0 ''userID'' = None"
    by (rule extractIdentifierMiddleware_keys) simp
  with keys show "Keys c' ''userID'' = None" by simp
  from keys show "\<exists>u. Keys c' ''user'' = Some (UserV u)" by simp
qed

lemma handlers_panic_without_userID:
  assumes "Keys c' ''userID'' = None"
  shows "UpdateJournalEntry bindEntry env c' docs = (Panicked (KeyDoesNotExist ''userID''), docs)"
    and "ProcessJournalEntry env c' docs = (Panicked (KeyDoesNotExist ''userID''), docs)"
    and "SetJournalVersion bindVersion env c' docs = (Panicked (KeyDoesNotExist ''userID''), docs)"
    and "SetJournalStatus bindStatus env c' docs = (Panicked (KeyDoesNotExist ''userID''), docs)"
    and "DeleteJournalEntry env c' docs = (Panicked (KeyDoesNotExist ''userID''), docs)"
  by (simp_all add: UpdateJournalEntry_def ProcessJournalEntry_def SetJournalVersion_def
      SetJournalStatus_def DeleteJournalEntry_def MustGet_missing [OF assms])

lemma protected_recovers_panic:
  assumes "AuthMiddleware parseWithClaims findErr users True
             (extractIdentifierMiddleware splitHostPort (reset c)) = Inr c'"
    and "handler c' docs = (Panicked p, docs)"
  shows "protected splitHostPort parseWithClaims findErr users handler c docs = (JSON 500 NoBody, docs)"
  using assms by (simp add: protected_def Recovery_def)

text \<open>
  C3. Let a request pass the required authentication on a route of the protected group:
  the middleware chain (fresh context, identifier extraction, \<open>AuthMiddleware\<close>) hands the
  handler a context in which \<open>user\<close> holds the user's record and \<open>userID\<close> is not set. Each
  of the five handlers that fetch \<open>userID\<close> with \<open>MustGet\<close> then panics before it reaches
  the store, the collection is unchanged, and the recovery middleware answers 500.
\<close>

theorem owner_handlers_panic:
  assumes "AuthMiddleware parseWithClaims findErr users True
             (extractIdentifierMiddleware splitHostPort (reset c)) = Inr c'"
  shows "Keys c' ''userID'' = None \<and> (\<exists>u. Keys c' ''user'' = Some (UserV u)) \<and>
         UpdateJournalEntry bindEntry env c' docs = (Panicked (KeyDoesNotExist ''userID''), docs) \<and>
         ProcessJournalEntry env c' docs = (Panicked (KeyDoesNotExist ''userID''), docs) \<and>
         SetJournalVersion bindVersion env c' docs = (Panicked (KeyDoesNotExist ''userID''), docs) \<and>
         SetJournalStatus bindStatus env c' docs = (Panicked (KeyDoesNotExist ''userID''), docs) \<and>
         DeleteJournalEntry env c' docs = (Panicked (KeyDoesNotExist ''userID''), docs) \<and>
         protected splitHostPort parseWithClaims findErr users (UpdateJournalEntry bindEntry env) c docs
           = (JSON 500 NoBody, docs) \<and>
         protected splitHostPort parseWithClaims findErr users (ProcessJournalEntry env) c docs
           = (JSON 500 NoBody, docs) \<and>
         protected splitHostPort parseWithClaims findErr users (SetJournalVersion bindVersion env) c docs
           = (JSON 500 NoBody, docs) \<and>
         protected splitHostPort parseWithClaims findErr users (SetJournalStatus bindStatus env) c docs
           = (JSON 500 NoBody, docs) \<and>
         protected splitHostPort parseWithClaims findErr users (DeleteJournalEntry env) c docs
           = (JSON 500 NoBody, docs)"
proof -
  note no_id = middleware_leaves_userID_unset(1) [OF assms]
  note user = middleware_leaves_userID_unset(2) [OF assms]
  note h1 = handlers_panic_without_userID(1) [OF no_id, of bindEntry env docs]
  note h2 = handlers_panic_without_userID(2) [OF no_id, of env docs]
  note h3 = handlers_panic_without_userID(3) [OF no_id, of bindVersion env docs]
  note h4 = handlers_panic_without_userID(4) [OF no_id, of bindStatus env docs]
  note h5 = handlers_panic_without_userID(5) [OF no_id, of env docs]
  from no_id user h1 h2 h3 h4 h5
    protected_recovers_panic [of parseWithClaims findErr users splitHostPort c c'
      "UpdateJournalEntry bindEntry env" docs, OF assms h1]
    protected_recovers_panic [of parseWithClaims findErr users splitHostPort c c'
      "ProcessJournalEntry env" docs, OF assms h2]
    protected_recovers_panic [of parseWithClaims findErr users splitHostPort c c'
      "SetJournalVersion bindVersion env" docs, OF assms h3]
    protected_recovers_panic [of parseWithClaims findErr users splitHostPort c c'
      "SetJournalStatus bindStatus env" docs, OF assms h4]
    protected_recovers_panic [of parseWithClaims findErr users splitHostPort c c'
      "DeleteJournalEntry env" docs, OF assms h5]
  show ?thesis by blast
qed

theorem owner_handlers_panic_witness:
  "AuthMiddleware parse_t1 False [user1] True (extractIdentifierMiddleware no_port (reset cookie_ctx))
     = Inr (cookie_ctx\<lparr>Keys := [''user'' \<mapsto> UserV user1]\<rparr>) \<and>
   FindOne False (owned ''j1'' ''u1'') [journal1] = Some journal1 \<and>
   protected no_port parse_t1 False [user1] (SetJournalStatus bind_status env0) cookie_ctx [journal1]
     = (JSON 500 NoBody, [journal1]) \<and>
   protected no_port parse_t1 False [user1] (DeleteJournalEntry env0) cookie_ctx [journal1]
     = (JSON 500 NoBody, [journal1])"
  using owner_handlers_panic [of parse_t1 False "[user1]" no_port cookie_ctx
      "cookie_ctx\<lparr>Keys := [''user'' \<mapsto> UserV user1]\<rparr>" bind_title env0 "[journal1]" bind_version bind_status]
  by (simp add: AuthMiddleware_def extractIdentifierMiddleware_def extractSubdomain_def no_port_def
      reset_def cookie_ctx_def parse_t1_def user1_def FindOne_def matches_def Set_def Param_def
      journal1_def Let_def protected_def Recovery_def UpdateJournalEntry_def ProcessJournalEntry_def
      SetJournalVersion_def SetJournalStatus_def DeleteJournalEntry_def MustGet_def owned_def
      journal_id_is_def user_id_is_def)

text \<open>
  Every request to one of the five routes, authenticated or not, leaves the collection as
  it was: the answer is 401 from the middleware or 500 from the recovery of the panic.
\<close>

lemma protected_owner_routes_never_write:
  assumes "handler = UpdateJournalEntry bindEntry env \<or> handler = ProcessJournalEntry env \<or>
           handler = SetJournalVersion bindVersion env \<or> handler = SetJournalStatus bindStatus env \<or>
           handler = DeleteJournalEntry env"
  shows "protected splitHostPort parseWithClaims findErr users handler c docs
           \<in> {(JSON 401 (error_body ''Not authenticated''), docs), (JSON 500 NoBody, docs)}"
proof (cases "AuthMiddleware parseWithClaims findErr users True
                (extractIdentifierMiddleware splitHostPort (reset c))")
  case (Inl aborted)
  then have "aborted = JSON 401 (error_body ''Not authenticated'')"
    by (auto simp: AuthMiddleware_def split: option.splits)
  with Inl show ?thesis by (simp add: protected_def Recovery_def error_body_def)
next
  case (Inr c')
  note no_id = middleware_leaves_userID_unset(1) [OF Inr]
  from assms
    handlers_panic_without_userID(1) [OF no_id, of bindEntry env docs]
    handlers_panic_without_userID(2) [OF no_id, of env docs]
    handlers_panic_without_userID(3) [OF no_id, of bindVersion env docs]
    handlers_panic_without_userID(4) [OF no_id, of bindStatus env docs]
    handlers_panic_without_userID(5) [OF no_id, of env docs]
  have "handler c' docs = (Panicked (KeyDoesNotExist ''userID''), docs)" by auto
  from protected_recovers_panic [of parseWithClaims findErr users splitHostPort c c' handler docs,
      OF Inr this]
  show ?thesis by simp
qed

text \<open>
  In particular, no sequence of append requests through the route adds an entry.
\<close>

lemma routed_appends_change_nothing:
  "routed_appends splitHostPort parseWithClaims findErr users bindJSON reqs docs = docs"
proof (induction reqs)
  case Nil
  show ?case by simp
next
  case (Cons r reqs)
  obtain env c where r: "r = (env, c)" by (cases r)
  have "protected splitHostPort parseWithClaims findErr users (UpdateJournalEntry bindJSON env) c docs
          \<in> {(JSON 401 (error_body ''Not authenticated''), docs), (JSON 500 NoBody, docs)}"
    by (rule protected_owner_routes_never_write) (rule disjI1, rule refl)
  then have "snd (protected splitHostPort parseWithClaims findErr users
               (UpdateJournalEntry bindJSON env) c docs) = docs"
    by auto
  with Cons.IH r show ?case by simp
qed

text \<open>
  C9. The claim is that set-status overwrites the status with the given string and
  refreshes the time of the last update. The owner's request, with a valid cookie, to set
  the status of the sample journal to \<open>public\<close> is answered with 500 on the registered
  route, and the journal keeps the status \<open>pending\<close> and its time of update.
\<close>

theorem routed_set_status_changes_nothing:
  "AuthMiddleware parse_t1 False [user1] True (extractIdentifierMiddleware no_port (reset cookie_ctx))
     = Inr (cookie_ctx\<lparr>Keys := [''user'' \<mapsto> UserV user1]\<rparr>) \<and>
   ID user1 = UserID journal1 \<and> Param cookie_ctx ''journalid'' = JournalID journal1 \<and>
   bind_status (Body cookie_ctx) = Inr ''public'' \<and>
   protected no_port parse_t1 False [user1] (SetJournalStatus bind_status env0) cookie_ctx [journal1]
     = (JSON 500 NoBody, [journal1]) \<and>
   Status journal1 = ''pending'' \<and> UpdatedAt journal1 = 30"
  by (simp add: AuthMiddleware_def extractIdentifierMiddleware_def extractSubdomain_def no_port_def
      reset_def cookie_ctx_def parse_t1_def user1_def FindOne_def matches_def Set_def Param_def
      journal1_def Let_def protected_def Recovery_def SetJournalStatus_def MustGet_def
      bind_status_def)

text \<open>
  C8. The claim is that a delete whose filter matches nothing is answered with success,
  and that a delete whose filter matches removes the aggregate. On the registered route
  the owner's request with a valid cookie is answered with 500 in both cases: when the
  collection holds no journal of that identifier, and when it holds the owner's journal,
  which stays in the collection.
\<close>

theorem routed_delete_fails:
  "AuthMiddleware parse_t1 False [user1] True (extractIdentifierMiddleware no_port (reset req_delete))
     = Inr (req_delete\<lparr>Keys := [''user'' \<mapsto> UserV user1]\<rparr>) \<and>
   FindOne False (owned (Param req_delete ''journalid'') (ID user1)) [journal2] = None \<and>
   protected no_port parse_t1 False [user1] (DeleteJournalEntry env0) req_delete [journal2]
     = (JSON 500 NoBody, [journal2]) \<and>
   FindOne False (owned (Param req_delete ''journalid'') (ID user1)) [journal2, journal1]
     = Some journal1 \<and>
   protected no_port parse_t1 False [user1] (DeleteJournalEntry env0) req_delete [journal2, journal1]
     = (JSON 500 NoBody, [journal2, journal1])"
  by (simp add: AuthMiddleware_def extractIdentifierMiddleware_def extractSubdomain_def no_port_def
      reset_def req_delete_def cookie_ctx_def parse_t1_def user1_def FindOne_def matches_def Set_def
      Param_def journal1_def journal2_def Let_def protected_def Recovery_def DeleteJournalEntry_def
      MustGet_def owned_def journal_id_is_def user_id_is_def)

text \<open>
  C6. The claim is that repointing to a version that no entry carries fails with
  \<open>Version not found\<close>, and that repointing to a version that an entry carries sets the
  pointer. On the registered route the owner's request with a valid cookie is answered
  with 500 for the absent version 7, and for the present version 2 as well, where the
  pointer stays at 1.
\<close>

theorem routed_set_version_fails:
  "AuthMiddleware parse_t1 False [user1] True (extractIdentifierMiddleware no_port (reset req_version7))
     = Inr (req_version7\<lparr>Keys := [''user'' \<mapsto> UserV user1]\<rparr>) \<and>
   ID user1 = UserID journal1 \<and> map EVersion (Entries journal1) = [1, 2, 3] \<and>
   bind_version (Body req_version7) = Inr 7 \<and>
   protected no_port parse_t1 False [user1] (SetJournalVersion bind_version env0) req_version7 [journal1]
     = (JSON 500 NoBody, [journal1]) \<and>
   bind_version (Body req_version2) = Inr 2 \<and>
   protected no_port parse_t1 False [user1] (SetJournalVersion bind_version env0) req_version2 [journal1]
     = (JSON 500 NoBody, [journal1]) \<and>
   Version journal1 = 1"
  by (simp add: AuthMiddleware_def extractIdentifierMiddleware_def extractSubdomain_def no_port_def
      reset_def req_version7_def req_version2_def cookie_ctx_def parse_t1_def user1_def FindOne_def
      matches_def Set_def Param_def journal1_def entry1_def entry2_def entry3_def Let_def
      protected_def Recovery_def SetJournalVersion_def MustGet_def bind_version_def)

text \<open>
  C1. The claim is that after creation and \<open>N\<close> appends the journal has \<open>N + 1\<close> entries
  with the versions 1 to \<open>N + 1\<close>. On the registered routes the owner creates a journal (the
  payload carries version 1) and is answered 201; the owner's append, with the same valid
  cookie, is answered 500 and the collection stays as creation left it: one entry, where
  \<open>N + 1\<close> is 2.
\<close>

theorem routed_append_adds_no_entry:
  "map status_code [routed_create, routed_append] = [201, 500] \<and>
   map (\<lambda>j. (JournalID j, UserID j, Version j, map EVersion (Entries j))) (snd routed_create)
     = [(''j1'', ''u1'', 1, [1])] \<and>
   Param req_append ''journalid'' = ''j1'' \<and>
   snd routed_append = snd routed_create \<and>
   map (\<lambda>j. length (Entries j)) (snd routed_append) = [1]"
  by (simp add: routed_create_def routed_append_def status_code_def
      AuthMiddleware_def extractIdentifierMiddleware_def extractSubdomain_def no_port_def
      reset_def req_create_def req_append_def cookie_ctx_def parse_t1_def user1_def FindOne_def
      matches_def Set_def Param_def Let_def protected_def Recovery_def
      CreateJournalEntry_def assertUser_def InsertOne_def bind_v1_def env0_def
      UpdateJournalEntry_def MustGet_def)

section \<open>Creating a journal\<close>

text \<open>
  What creation does: the new aggregate has the pointer at 1, the status \<open>pending\<close>, and
  as its only entry the payload exactly as it was bound, version and timestamp included.
\<close>

lemma CreateJournalEntry_run:
  assumes "Keys c ''user'' = Some (UserV u)"
    and "bindJSON (Body c) = Inr newEntry"
    and "\<not> WriteErr env"
  shows "\<exists>j. CreateJournalEntry bindJSON env c docs = (JSON 201 (JournalB j), docs @ [j]) \<and>
             JournalID j = NewID env \<and> UserID j = ID u \<and> Version j = 1 \<and>
             Entries j = [newEntry] \<and> Status j = ''pending'' \<and>
             CreatedAt j = Now1 env \<and> UpdatedAt j = Now2 env"
  using assms by (simp add: CreateJournalEntry_def assertUser_def InsertOne_def Let_def)

lemma CreateJournalEntry_unauthorized:
  "Keys c ''user'' = None \<Longrightarrow>
     CreateJournalEntry bindJSON env c docs = (JSON 401 (error_body ''User not authenticated''), docs)"
  by (simp add: CreateJournalEntry_def)

text \<open>
  C2. A create request with an identity and a payload that carries only a title, at time
  100: the aggregate stored and returned has the pointer at 1, one entry and the status
  \<open>pending\<close>, but the entry keeps the payload's version 0 and timestamp 0 instead of
  version 1 and the creation time, so that no entry carries the version the pointer names.
\<close>

theorem CreateJournalEntry_entry_not_stamped:
  "CreateJournalEntry bind_title env0 creator_ctx [] =
     (JSON 201 (JournalB created_journal), [created_journal]) \<and>
   Version created_journal = 1 \<and> length (Entries created_journal) = 1 \<and>
   Status created_journal = ''pending'' \<and> CreatedAt created_journal = 100 \<and>
   EVersion (Entries created_journal ! 0) = 0 \<and>
   EUpdatedAt (Entries created_journal ! 0) = 0 \<and>
   Version created_journal \<notin> EVersion ` set (Entries created_journal)"
  by (simp add: CreateJournalEntry_def assertUser_def InsertOne_def bind_title_def env0_def
      creator_ctx_def user1_def created_journal_def no_taxonomy_def Let_def)

section \<open>The image stores\<close>

lemma LocalImageStore_SaveImage_ok:
  "LocalImageStore_SaveImage Join False None l userID filename img fs =
     (Inr (''/images/'' @ image_key userID filename),
      fs(Join (BasePath l) (image_key userID filename) \<mapsto> img))"
  by (simp add: LocalImageStore_SaveImage_def image_key_def Let_def)

lemma LocalImageStore_SaveImage_Inr:
  assumes "LocalImageStore_SaveImage Join createErr copyErr l userID filename img fs = (Inr url, fs')"
  shows "url = ''/images/'' @ image_key userID filename \<and>
         fs' = fs(Join (BasePath l) (image_key userID filename) \<mapsto> img)"
  using assms
  by (auto simp: LocalImageStore_SaveImage_def image_key_def Let_def split: if_splits option.splits)

text \<open>The prefix of the URLs the object-storage store returns.\<close>

lemma S3ImageStore_SaveImage_ok:
  "S3ImageStore_SaveImage endpoint region False s userID filename img objects =
     (Inr ((if endpoint \<noteq> []
            then (if Contains endpoint ''localstack''
                  then Replace1 endpoint ''localstack'' ''localhost'' else endpoint)
                 @ ''/'' @ BucketName s @ ''/''
            else ''https://'' @ BucketName s @ ''.s3.'' @ region @ ''.amazonaws.com/'')
           @ image_key userID filename),
      objects((BucketName s, image_key userID filename) \<mapsto> img))"
  by (simp add: S3ImageStore_SaveImage_def image_key_def Let_def)

lemma S3ImageStore_SaveImage_Inr:
  assumes "S3ImageStore_SaveImage endpoint region putErr s userID filename img objects = (Inr url, objects')"
  shows "suffix (image_key userID filename) url \<and>
         objects' = objects((BucketName s, image_key userID filename) \<mapsto> img)"
proof -
  from assms have ok: "\<not> putErr"
    by (auto simp: S3ImageStore_SaveImage_def Let_def split: if_splits)
  with assms S3ImageStore_SaveImage_ok [of endpoint region s userID filename img objects]
  obtain p where "url = p @ image_key userID filename"
    and "objects' = objects((BucketName s, image_key userID filename) \<mapsto> img)"
    by auto
  then show ?thesis by (simp add: suffix_def)
qed

text \<open>
  C10. Both image stores satisfy the contract: a successful save returns a URL that ends
  in \<open>{ownerID}-{filename}\<close>, and the blob is then fetched back under that name (from the
  file \<open>Join BasePath name\<close>, from the object \<open>name\<close> of the bucket). When nothing fails, a
  save succeeds whatever the store holds, and saving a second blob for the same owner and
  file name leaves the store exactly as if only the second had been saved, with the same
  URL: the first blob is overwritten and no error is raised.
\<close>

theorem image_stores_same_contract:
  "image_store_contract (LocalImageStore_SaveImage Join createErr copyErr l)
     (\<lambda>fs name. fs (Join (BasePath l) name)) \<and>
   image_store_contract (S3ImageStore_SaveImage endpoint region putErr s)
     (\<lambda>objects name. objects (BucketName s, name)) \<and>
   LocalImageStore_SaveImage Join False None l ownerID filename file2
       (snd (LocalImageStore_SaveImage Join False None l ownerID filename file1 fs))
     = LocalImageStore_SaveImage Join False None l ownerID filename file2 fs \<and>
   fst (LocalImageStore_SaveImage Join False None l ownerID filename file2 fs)
     = Inr (''/images/'' @ image_key ownerID filename) \<and>
   S3ImageStore_SaveImage endpoint region False s ownerID filename file2
       (snd (S3ImageStore_SaveImage endpoint region False s ownerID filename file1 objects))
     = S3ImageStore_SaveImage endpoint region False s ownerID filename file2 objects \<and>
   (\<exists>url. fst (S3ImageStore_SaveImage endpoint region False s ownerID filename file2 objects) = Inr url)"
proof (intro conjI)
  show "image_store_contract (LocalImageStore_SaveImage Join createErr copyErr l)
          (\<lambda>fs name. fs (Join (BasePath l) name))"
    unfolding image_store_contract_def
  proof (intro allI impI)
    fix ownerID filename img s url s'
    assume "LocalImageStore_SaveImage Join createErr copyErr l ownerID filename img s = (Inr url, s')"
    from LocalImageStore_SaveImage_Inr [OF this]
    show "suffix (image_key ownerID filename) url \<and>
          s' (Join (BasePath l) (image_key ownerID filename)) = Some img"
      by (simp add: suffix_def)
  qed
  show "image_store_contract (S3ImageStore_SaveImage endpoint region putErr s)
          (\<lambda>objects name. objects (BucketName s, name))"
    unfolding image_store_contract_def
  proof (intro allI impI)
    fix ownerID filename img st url st'
    assume "S3ImageStore_SaveImage endpoint region putErr s ownerID filename img st = (Inr url, st')"
    from S3ImageStore_SaveImage_Inr [OF this]
    show "suffix (image_key ownerID filename) url \<and>
          st' (BucketName s, image_key ownerID filename) = Some img"
      by simp
  qed
  show "LocalImageStore_SaveImage Join False None l ownerID filename file2
          (snd (LocalImageStore_SaveImage Join False None l ownerID filename file1 fs))
        = LocalImageStore_SaveImage Join False None l ownerID filename file2 fs"
    by (simp add: LocalImageStore_SaveImage_ok)
  show "fst (LocalImageStore_SaveImage Join False None l ownerID filename file2 fs)
          = Inr (''/images/'' @ image_key ownerID filename)"
    by (simp add: LocalImageStore_SaveImage_ok)
  show "S3ImageStore_SaveImage endpoint region False s ownerID filename file2
          (snd (S3ImageStore_SaveImage endpoint region False s ownerID filename file1 objects))
        = S3ImageStore_SaveImage endpoint region False s ownerID filename file2 objects"
    by (simp add: S3ImageStore_SaveImage_ok)
  show "\<exists>url. fst (S3ImageStore_SaveImage endpoint region False s ownerID filename file2 objects) = Inr url"
    by (simp add: S3ImageStore_SaveImage_ok)
qed

theorem image_stores_same_contract_witness:
  "LocalImageStore_SaveImage join_slash False None local_store ''u1'' ''a.png'' [1, 2] Map.empty
     = (Inr ''/images/u1-a.png'', [''/data/u1-a.png'' \<mapsto> [1, 2]]) \<and>
   suffix (image_key ''u1'' ''a.png'') ''/images/u1-a.png'' \<and>
   [''/data/u1-a.png'' \<mapsto> [1, 2::8 word]] (join_slash (BasePath local_store) (image_key ''u1'' ''a.png''))
     = Some [1, 2] \<and>
   S3ImageStore_SaveImage ''http://localstack:4566'' ''eu-west-1'' False s3_store ''u1'' ''a.png'' [1, 2] Map.empty
     = (Inr ''http://localhost:4566/img/u1-a.png'', [(''img'', ''u1-a.png'') \<mapsto> [1, 2]]) \<and>
   suffix (image_key ''u1'' ''a.png'') ''http://localhost:4566/img/u1-a.png'' \<and>
   S3ImageStore_SaveImage [] ''eu-west-1'' False s3_store ''u1'' ''a.png'' [3] [(''img'', ''u1-a.png'') \<mapsto> [1, 2]]
     = (Inr ''https://img.s3.eu-west-1.amazonaws.com/u1-a.png'', [(''img'', ''u1-a.png'') \<mapsto> [3]])"
proof -
  have local: "LocalImageStore_SaveImage join_slash False None local_store ''u1'' ''a.png'' [1, 2] Map.empty
     = (Inr ''/images/u1-a.png'', [''/data/u1-a.png'' \<mapsto> [1, 2]])"
    by (simp add: LocalImageStore_SaveImage_def join_slash_def local_store_def Let_def)
  have s3: "S3ImageStore_SaveImage ''http://localstack:4566'' ''eu-west-1'' False s3_store ''u1'' ''a.png'' [1, 2] Map.empty
     = (Inr ''http://localhost:4566/img/u1-a.png'', [(''img'', ''u1-a.png'') \<mapsto> [1, 2]])"
    by (simp add: S3ImageStore_SaveImage_def s3_store_def Let_def)
  have s3': "S3ImageStore_SaveImage [] ''eu-west-1'' False s3_store ''u1'' ''a.png'' [3] [(''img'', ''u1-a.png'') \<mapsto> [1, 2]]
     = (Inr ''https://img.s3.eu-west-1.amazonaws.com/u1-a.png'', [(''img'', ''u1-a.png'') \<mapsto> [3]])"
    by (simp add: S3ImageStore_SaveImage_def s3_store_def Let_def)
  note c = image_stores_same_contract [of join_slash False None local_store
      "''http://localstack:4566''" "''eu-west-1''" False s3_store, unfolded image_store_contract_def]
  from c local have "suffix (image_key ''u1'' ''a.png'') ''/images/u1-a.png'' \<and>
      [''/data/u1-a.png'' \<mapsto> [1, 2::8 word]] (join_slash (BasePath local_store) (image_key ''u1'' ''a.png'')) = Some [1, 2]"
    by blast
  moreover from c s3 have "suffix (image_key ''u1'' ''a.png'') ''http://localhost:4566/img/u1-a.png''"
    by blast
  ultimately show ?thesis using local s3 s3' by blast
qed

section \<open>The handler bodies on a context that holds \<open>userID\<close>\<close>

text \<open>
  No registered route hands a handler a context in which \<open>userID\<close> is set (see the
  section on the protected routes). The lemmas of this section say what the bodies of the
  owner's handlers compute on such a context.
\<close>

lemma matches_owned [simp]:
  "matches (owned journalID userID) j \<longleftrightarrow> JournalID j = journalID \<and> UserID j = userID"
  by (simp add: matches_def owned_def journal_id_is_def user_id_is_def)

lemma MustGet_userID:
  "Keys c ''userID'' = Some (Str userID) \<Longrightarrow>
     MustGet c ''userID'' = Inr (Str userID) \<and> assertString (Str userID) = Inr userID"
  by (simp add: MustGet_def assertString_def)

lemma SetJournalStatus_run:
  assumes "Keys c ''userID'' = Some (Str userID)"
    and "bindJSON (Body c) = Inr status"
    and "\<not> WriteErr env"
  shows "SetJournalStatus bindJSON env c docs =
           (JSON 200 (message_body ''Journal status updated''),
            update_first (matches (owned (Param c ''journalid'') userID))
              (\<lambda>d. d\<lparr>Status := status, UpdatedAt := Now1 env\<rparr>) docs)"
  using assms by (simp add: SetJournalStatus_def MustGet_userID UpdateOne_def)

text \<open>
  Set-status: the first document matching \<open>{journal_id, user_id}\<close> gets the status and the
  time of update overwritten; nothing else changes.
\<close>

lemma SetJournalStatus_given_userID:
  assumes "Keys c ''userID'' = Some (Str userID)"
    and "bindJSON (Body c) = Inr status"
    and "\<not> WriteErr env"
    and "FindOne False (owned (Param c ''journalid'') userID) docs = Some j"
  shows "\<exists>before after j'.
           docs = before @ j # after \<and>
           (\<forall>d\<in>set before. \<not> matches (owned (Param c ''journalid'') userID) d) \<and>
           SetJournalStatus bindJSON env c docs =
             (JSON 200 (message_body ''Journal status updated''), before @ j' # after) \<and>
           Status j' = status \<and> UpdatedAt j' = Now1 env \<and>
           JournalID j' = JournalID j \<and> UserID j' = UserID j \<and> Version j' = Version j \<and>
           Entries j' = Entries j \<and> Taxonomy j' = Taxonomy j \<and> Summary j' = Summary j \<and>
           CreatedAt j' = CreatedAt j"
proof -
  let ?p = "matches (owned (Param c ''journalid'') userID)"
  let ?f = "\<lambda>d. d\<lparr>Status := status, UpdatedAt := Now1 env\<rparr>"
  from assms(4) have "find ?p docs = Some j" by (simp add: FindOne_def)
  from find_split [OF this] obtain before after
    where split: "docs = before @ j # after" "?p j" "\<forall>d\<in>set before. \<not> ?p d" by blast
  have "update_first ?p ?f docs = before @ ?f j # after"
    unfolding split(1) using split(2,3) by (rule update_first_at [rotated])
  with SetJournalStatus_run [of c userID bindJSON status env docs] assms(1-3)
  have "SetJournalStatus bindJSON env c docs =
          (JSON 200 (message_body ''Journal status updated''), before @ ?f j # after)"
    by simp
  with split show ?thesis
    by (intro exI [of _ before] exI [of _ after] exI [of _ "?f j"]) simp
qed

lemma find_None_iff_no_match: "find p xs = None \<longleftrightarrow> (\<forall>x\<in>set xs. \<not> p x)"
  by (induction xs) simp_all

lemma DeleteJournalEntry_run:
  assumes "Keys c ''userID'' = Some (Str userID)" and "\<not> WriteErr env"
  shows "DeleteJournalEntry env c docs =
           (JSON 200 (message_body ''Journal entry deleted''),
            delete_first (matches (owned (Param c ''journalid'') userID)) docs)"
  using assms by (simp add: DeleteJournalEntry_def MustGet_userID DeleteOne_def)

lemma unique_id_no_other_match:
  assumes "distinct (map JournalID (before @ j # after))"
    and "matches (owned journalID userID) j"
  shows "find (matches (owned journalID userID)) (before @ after) = None"
proof -
  from assms(2) have id: "JournalID j = journalID" by simp
  from assms(1) have "JournalID j \<notin> JournalID ` set before" "JournalID j \<notin> JournalID ` set after"
    by auto
  with id have "\<forall>d\<in>set (before @ after). \<not> matches (owned journalID userID) d"
    by (auto simp: image_iff)
  then show ?thesis by (simp only: find_None_iff_no_match)
qed

text \<open>
  Delete: no match is answered with success and changes nothing; a match removes the first
  matching document.
\<close>

lemma DeleteJournalEntry_given_userID:
  assumes "Keys c ''userID'' = Some (Str userID)" and "\<not> WriteErr env"
  shows "(FindOne False (owned (Param c ''journalid'') userID) docs = None \<longrightarrow>
            DeleteJournalEntry env c docs =
              (JSON 200 (message_body ''Journal entry deleted''), docs)) \<and>
         (\<forall>j. FindOne False (owned (Param c ''journalid'') userID) docs = Some j \<longrightarrow>
            (\<exists>before after.
               docs = before @ j # after \<and>
               DeleteJournalEntry env c docs =
                 (JSON 200 (message_body ''Journal entry deleted''), before @ after) \<and>
               (distinct (map JournalID docs) \<longrightarrow>
                  FindOne False (owned (Param c ''journalid'') userID) (before @ after) = None)))"
proof (intro conjI allI impI)
  assume "FindOne False (owned (Param c ''journalid'') userID) docs = None"
  then have "find (matches (owned (Param c ''journalid'') userID)) docs = None"
    by (simp add: FindOne_def)
  then have "delete_first (matches (owned (Param c ''journalid'') userID)) docs = docs"
    by (rule delete_first_no_match)
  with DeleteJournalEntry_run [OF assms, of docs]
  show "DeleteJournalEntry env c docs = (JSON 200 (message_body ''Journal entry deleted''), docs)"
    by simp
next
  fix j
  let ?p = "matches (owned (Param c ''journalid'') userID)"
  assume "FindOne False (owned (Param c ''journalid'') userID) docs = Some j"
  then have "find ?p docs = Some j" by (simp add: FindOne_def)
  from find_split [OF this] obtain before after
    where split: "docs = before @ j # after" "?p j" "\<forall>d\<in>set before. \<not> ?p d" by blast
  have "delete_first ?p docs = before @ after"
    unfolding split(1) using split(3,2) by (rule delete_first_at)
  with DeleteJournalEntry_run [OF assms, of docs]
  have run: "DeleteJournalEntry env c docs =
               (JSON 200 (message_body ''Journal entry deleted''), before @ after)"
    by simp
  have "distinct (map JournalID docs) \<longrightarrow>
          FindOne False (owned (Param c ''journalid'') userID) (before @ after) = None"
    using unique_id_no_other_match [of before j after "Param c ''journalid''" userID] split(1,2)
    by (simp add: FindOne_def)
  with split(1) run
  show "\<exists>before after.
          docs = before @ j # after \<and>
          DeleteJournalEntry env c docs =
            (JSON 200 (message_body ''Journal entry deleted''), before @ after) \<and>
          (distinct (map JournalID docs) \<longrightarrow>
             FindOne False (owned (Param c ''journalid'') userID) (before @ after) = None)"
    by blast
qed

lemma version_loop_absent:
  "version \<notin> EVersion ` set es \<Longrightarrow> version_loop env flt version journal docs es = None"
  by (induction es) auto

lemma version_loop_present:
  "version \<in> EVersion ` set es \<Longrightarrow> \<not> WriteErr env \<Longrightarrow>
     version_loop env flt version journal docs es =
       Some (JSON 200 (JournalB (journal\<lparr>Version := version, UpdatedAt := Now1 env\<rparr>)),
             update_first (matches flt) (\<lambda>d. d\<lparr>Version := version, UpdatedAt := Now1 env\<rparr>) docs)"
  by (induction es) (auto simp: UpdateOne_def)

lemma SetJournalVersion_run:
  assumes "Keys c ''userID'' = Some (Str userID)"
    and "bindJSON (Body c) = Inr version"
    and "FindOne (FindErr env) (owned (Param c ''journalid'') userID) docs = Some journal"
  shows "SetJournalVersion bindJSON env c docs =
           (case version_loop env (owned (Param c ''journalid'') userID) version journal docs
                   (Entries journal) of
              Some r \<Rightarrow> r
            | None \<Rightarrow> (JSON 400 (error_body ''Version not found''), docs))"
  using assms by (simp add: SetJournalVersion_def MustGet_userID)

text \<open>
  Set-current-version: an absent target is answered with \<open>Version not found\<close> and changes
  nothing; a present target sets the pointer and the time of update.
\<close>

lemma SetJournalVersion_given_userID:
  assumes "Keys c ''userID'' = Some (Str userID)"
    and "bindJSON (Body c) = Inr version"
    and "FindOne (FindErr env) (owned (Param c ''journalid'') userID) docs = Some journal"
  shows "(version \<notin> EVersion ` set (Entries journal) \<longrightarrow>
            SetJournalVersion bindJSON env c docs =
              (JSON 400 (error_body ''Version not found''), docs)) \<and>
         (version \<in> EVersion ` set (Entries journal) \<and> \<not> WriteErr env \<longrightarrow>
            (\<exists>before after.
               docs = before @ journal # after \<and>
               SetJournalVersion bindJSON env c docs =
                 (JSON 200 (JournalB (journal\<lparr>Version := version, UpdatedAt := Now1 env\<rparr>)),
                  before @ journal\<lparr>Version := version, UpdatedAt := Now1 env\<rparr> # after)))"
proof (intro conjI impI)
  note run = SetJournalVersion_run [of c userID bindJSON version env docs journal, OF assms]
  assume "version \<notin> EVersion ` set (Entries journal)"
  then show "SetJournalVersion bindJSON env c docs =
               (JSON 400 (error_body ''Version not found''), docs)"
    by (simp add: run version_loop_absent)
next
  note run = SetJournalVersion_run [of c userID bindJSON version env docs journal, OF assms]
  let ?p = "matches (owned (Param c ''journalid'') userID)"
  let ?f = "\<lambda>d. d\<lparr>Version := version, UpdatedAt := Now1 env\<rparr>"
  assume present: "version \<in> EVersion ` set (Entries journal) \<and> \<not> WriteErr env"
  from assms(3) have "find ?p docs = Some journal"
    by (simp add: FindOne_def split: if_splits)
  from find_split [OF this] obtain before after
    where split: "docs = before @ journal # after" "?p journal" "\<forall>d\<in>set before. \<not> ?p d"
    by blast
  have upd: "update_first ?p ?f docs = before @ ?f journal # after"
    unfolding split(1) using split(3,2) by (rule update_first_at)
  from present have "SetJournalVersion bindJSON env c docs =
      (JSON 200 (JournalB (?f journal)), update_first ?p ?f docs)"
    by (simp add: run version_loop_present)
  with upd split(1)
  show "\<exists>before after.
          docs = before @ journal # after \<and>
          SetJournalVersion bindJSON env c docs =
            (JSON 200 (JournalB (?f journal)), before @ ?f journal # after)"
    by auto
qed

lemma UpdateJournalEntry_run:
  assumes "Keys c ''userID'' = Some (Str userID)"
    and "bindJSON (Body c) = Inr e"
    and "\<not> FindErr env" and "\<not> WriteErr env"
    and "FindOne False (owned (Param c ''journalid'') userID) docs = Some j"
  shows "\<exists>before after.
           docs = before @ j # after \<and>
           (\<forall>d\<in>set before. \<not> matches (owned (Param c ''journalid'') userID) d) \<and>
           UpdateJournalEntry bindJSON env c docs =
             (JSON 200 (JournalB (j\<lparr>Entries := Entries j @ [e\<lparr>EVersion := Version j + 1, EUpdatedAt := Now1 env\<rparr>],
                                    Version := Version j + 1, UpdatedAt := Now2 env\<rparr>)),
              before @ j\<lparr>Entries := Entries j @ [e\<lparr>EVersion := Version j + 1, EUpdatedAt := Now1 env\<rparr>],
                          Version := Version j + 1, UpdatedAt := Now2 env\<rparr> # after)"
proof -
  let ?p = "matches (owned (Param c ''journalid'') userID)"
  let ?j' = "j\<lparr>Entries := Entries j @ [e\<lparr>EVersion := Version j + 1, EUpdatedAt := Now1 env\<rparr>],
               Version := Version j + 1, UpdatedAt := Now2 env\<rparr>"
  let ?f = "\<lambda>d. d\<lparr>Entries := Entries ?j', Version := Version ?j', UpdatedAt := UpdatedAt ?j'\<rparr>"
  from assms(5) have found: "find ?p docs = Some j" by (simp add: FindOne_def)
  from find_split [OF found] obtain before after
    where split: "docs = before @ j # after" "?p j" "\<forall>d\<in>set before. \<not> ?p d" by blast
  have "update_first ?p ?f docs = before @ ?f j # after"
    unfolding split(1) using split(3,2) by (rule update_first_at)
  moreover have "?f j = ?j'" by simp
  moreover have "UpdateJournalEntry bindJSON env c docs = (JSON 200 (JournalB ?j'), update_first ?p ?f docs)"
    using assms(1-4) found
    by (simp add: UpdateJournalEntry_def MustGet_userID FindOne_def UpdateOne_def Let_def)
  ultimately have "UpdateJournalEntry bindJSON env c docs = (JSON 200 (JournalB ?j'), before @ ?j' # after)"
    by simp
  with split(1,3) show ?thesis by blast
qed

lemma UpdateJournalEntry_step:
  assumes "Keys c ''userID'' = Some (Str userID)"
    and "bindJSON (Body c) = Inr e"
    and "\<not> FindErr env" and "\<not> WriteErr env"
    and "FindOne False (owned (Param c ''journalid'') userID) docs = Some j"
  shows "FindOne False (owned (Param c ''journalid'') userID) (snd (UpdateJournalEntry bindJSON env c docs)) =
           Some (j\<lparr>Entries := Entries j @ [e\<lparr>EVersion := Version j + 1, EUpdatedAt := Now1 env\<rparr>],
                    Version := Version j + 1, UpdatedAt := Now2 env\<rparr>)"
proof -
  let ?p = "matches (owned (Param c ''journalid'') userID)"
  from UpdateJournalEntry_run [of c userID bindJSON e env docs j] assms obtain before after j'
    where r: "docs = before @ j # after" "\<forall>d\<in>set before. \<not> ?p d"
      "j' = j\<lparr>Entries := Entries j @ [e\<lparr>EVersion := Version j + 1, EUpdatedAt := Now1 env\<rparr>],
                Version := Version j + 1, UpdatedAt := Now2 env\<rparr>"
      "UpdateJournalEntry bindJSON env c docs = (JSON 200 (JournalB j'), before @ j' # after)"
    by blast
  from assms(5) have "find ?p docs = Some j" by (simp add: FindOne_def)
  from find_split [OF this] have "?p j" by blast
  with r(3) have "?p j'" by simp
  with r(2) have "find ?p (before @ j' # after) = Some j'" by (rule find_first_match)
  with r(3,4) show ?thesis by (simp add: FindOne_def)
qed

text \<open>
  Append: the new entry's version is the version pointer plus one (\<open>journal.Version + 1\<close>),
  and the pointer moves to it.
\<close>

lemma append_all_versions:
  assumes "Keys c ''userID'' = Some (Str userID)"
    and "\<forall>(env, b)\<in>set reqs. \<not> FindErr env \<and> \<not> WriteErr env \<and> (\<exists>e. bindJSON b = Inr e)"
    and "FindOne False (owned (Param c ''journalid'') userID) docs = Some j"
  shows "\<exists>j'. FindOne False (owned (Param c ''journalid'') userID) (append_all bindJSON c reqs docs) = Some j' \<and>
              Version j' = Version j + word_of_nat (length reqs) \<and>
              take (length (Entries j)) (Entries j') = Entries j \<and>
              map EVersion (drop (length (Entries j)) (Entries j')) =
                map (\<lambda>k. Version j + word_of_nat k + 1) [0..<length reqs]"
  using assms(2,3)
proof (induction reqs arbitrary: docs j)
  case Nil
  then show ?case by simp
next
  case (Cons r reqs)
  obtain env b where r: "r = (env, b)" by (cases r)
  from Cons.prems(1) r obtain e
    where good: "\<not> FindErr env" "\<not> WriteErr env" "bindJSON b = Inr e" by auto
  let ?c = "c\<lparr>Body := b\<rparr>"
  let ?j1 = "j\<lparr>Entries := Entries j @ [e\<lparr>EVersion := Version j + 1, EUpdatedAt := Now1 env\<rparr>],
               Version := Version j + 1, UpdatedAt := Now2 env\<rparr>"
  let ?docs1 = "snd (UpdateJournalEntry bindJSON env ?c docs)"
  have step: "FindOne False (owned (Param c ''journalid'') userID) ?docs1 = Some ?j1"
    using UpdateJournalEntry_step [of ?c userID bindJSON e env docs j] assms(1) good Cons.prems(2)
    by (simp add: Param_def)
  from Cons.prems(1) have rest: "\<forall>(env, b)\<in>set reqs. \<not> FindErr env \<and> \<not> WriteErr env \<and> (\<exists>e. bindJSON b = Inr e)"
    by simp
  from Cons.IH [of ?docs1 ?j1] rest step obtain j'
    where IH: "FindOne False (owned (Param c ''journalid'') userID) (append_all bindJSON c reqs ?docs1) = Some j'"
      "Version j' = Version ?j1 + word_of_nat (length reqs)"
      "take (length (Entries ?j1)) (Entries j') = Entries ?j1"
      "map EVersion (drop (length (Entries ?j1)) (Entries j')) =
         map (\<lambda>k. Version ?j1 + word_of_nat k + 1) [0..<length reqs]"
    by blast
  let ?n = "length (Entries j)"
  from IH(3) have tk: "take (Suc ?n) (Entries j') = Entries j @ [e\<lparr>EVersion := Version j + 1, EUpdatedAt := Now1 env\<rparr>]"
    by simp
  then have "take ?n (take (Suc ?n) (Entries j')) = Entries j" by simp
  then have a: "take ?n (Entries j') = Entries j" by (simp add: min_def)
  have len: "Suc ?n \<le> length (Entries j')"
  proof (rule ccontr)
    assume "\<not> Suc ?n \<le> length (Entries j')"
    then have "length (take (Suc ?n) (Entries j')) < Suc ?n" by simp
    with tk show False by simp
  qed
  have "drop ?n (Entries j') = (Entries j' ! ?n) # drop (Suc ?n) (Entries j')"
    using len by (simp add: Cons_nth_drop_Suc)
  moreover have "Entries j' ! ?n = take (Suc ?n) (Entries j') ! ?n" by simp
  with tk have "Entries j' ! ?n = e\<lparr>EVersion := Version j + 1, EUpdatedAt := Now1 env\<rparr>" by simp
  ultimately have "map EVersion (drop ?n (Entries j')) =
      (Version j + 1) # map (\<lambda>k. Version j + 1 + word_of_nat k + 1) [0..<length reqs]"
    using IH(4) by simp
  also have "\<dots> = map (\<lambda>k. Version j + word_of_nat k + 1) [0..<length (r # reqs)]"
    by (simp add: map_upt_Suc add.commute add.left_commute del: upt_Suc)
  finally have b: "map EVersion (drop ?n (Entries j')) =
      map (\<lambda>k. Version j + word_of_nat k + 1) [0..<length (r # reqs)]" .
  from IH(2) have v: "Version j' = Version j + word_of_nat (length (r # reqs))"
    by (simp add: add.commute add.left_commute)
  from IH(1) r have "FindOne False (owned (Param c ''journalid'') userID) (append_all bindJSON c (r # reqs) docs) = Some j'"
    by simp
  with v a b show ?case by blast
qed

end
